theory Spec2Isabelle
  imports Main "HOL-Library.AList"
begin

section \<open>queuectl: a job queue over three tables\<close>

text \<open>
  The embedding follows \<^verbatim>\<open>src/queuectl.py\<close>. The SQLite database is a record of three
  tables; a table is the list of its rows in insertion order. Every function that writes
  takes the store and returns the new one. An exception of the source is a value of
  \<open>py_error\<close>, returned as \<open>Inl\<close>.

  Timestamps. The source stores instants as ISO-8601 text produced by
  \<^verbatim>\<open>datetime.now(timezone.utc).isoformat()\<close> and compares them as text. Texts of that
  one format (UTC offset always \<^verbatim>\<open>+00:00\<close>) compare as the instants they denote, so an instant
  is modelled as an integer count of microseconds since the Unix epoch. Every read of the
  clock is a parameter of the function that makes it: a function that reads the clock
  twice takes two readings, in the order in which the source evaluates them.

  Values. Python integers are \<open>int\<close>. An SQL \<^verbatim>\<open>NULL\<close> and a Python \<^verbatim>\<open>None\<close> are
  \<open>None\<close>. Text is \<open>string\<close>; the model covers ASCII text (\<open>is_ascii\<close>). An integer
  that is bound to a parameter of an SQL statement must fit SQLite's signed 64-bit
  \<^verbatim>\<open>INTEGER\<close>; otherwise \<^verbatim>\<open>sqlite3\<close> raises \<^verbatim>\<open>OverflowError\<close> and the statement does not run.
\<close>

type_synonym timestamp = int

datatype py_error =
    KeyError
  | ValueError
  | ZeroDivisionError
  | OverflowError
  | IntegrityError
  | OperationalError

subsection \<open>Tables\<close>

record job =
  job_id :: string
  command :: string
  state :: string
  attempts :: int
  max_retries :: int
  created_at :: timestamp
  updated_at :: timestamp
  available_at :: timestamp
  priority :: int
  run_timeout :: "int option"
  worker_id :: "string option"
  started_at :: "timestamp option"
  finished_at :: "timestamp option"
  last_error :: "string option"
  job_output :: "string option"

record worker =
  w_id :: string
  pid :: int
  w_started_at :: timestamp
  heartbeat_at :: timestamp
  status :: string

record store =
  jobs :: "job list"
  kv :: "(string \<times> string) list"
  workers :: "worker list"

definition DEFAULT_MAX_RETRIES :: int where
  "DEFAULT_MAX_RETRIES = 3"

definition DEFAULT_BACKOFF_BASE :: int where
  "DEFAULT_BACKOFF_BASE = 2"

text \<open>
  \<open>str\<close> of the three defaults, as \<^verbatim>\<open>init_db\<close> and the readers of the config pass them.
\<close>

definition str_DEFAULT_MAX_RETRIES :: string where
  "str_DEFAULT_MAX_RETRIES = ''3''"

definition str_DEFAULT_BACKOFF_BASE :: string where
  "str_DEFAULT_BACKOFF_BASE = ''2''"

definition str_DEFAULT_POLL_IDLE_SECS :: string where
  "str_DEFAULT_POLL_IDLE_SECS = ''0.5''"

subsection \<open>Python built-ins the source calls\<close>

definition is_ascii :: "string \<Rightarrow> bool" where
  "is_ascii s \<longleftrightarrow> list_all (\<lambda>c. (of_char c :: nat) < 128) s"

text \<open>
  Whitespace as \<^verbatim>\<open>str.strip()\<close> sees it, over ASCII: the space, \<^verbatim>\<open>\t \n \v \f \r\<close> and the
  four separators \<^verbatim>\<open>0x1C..0x1F\<close>.
\<close>

definition is_space :: "char \<Rightarrow> bool" where
  "is_space c \<longleftrightarrow> (let n = (of_char c :: nat) in n = 32 \<or> (9 \<le> n \<and> n \<le> 13) \<or> (28 \<le> n \<and> n \<le> 31))"

definition py_strip :: "string \<Rightarrow> string" where
  "py_strip s = rev (dropWhile is_space (rev (dropWhile is_space s)))"

text \<open>
  Whitespace as \<^verbatim>\<open>int()\<close> skips it around an ASCII literal: the space and
  \<^verbatim>\<open>\t \n \v \f \r\<close> only.
\<close>

definition is_int_space :: "char \<Rightarrow> bool" where
  "is_int_space c \<longleftrightarrow> (let n = (of_char c :: nat) in n = 32 \<or> (9 \<le> n \<and> n \<le> 13))"

definition int_strip :: "string \<Rightarrow> string" where
  "int_strip s = rev (dropWhile is_int_space (rev (dropWhile is_int_space s)))"

definition is_digit :: "char \<Rightarrow> bool" where
  "is_digit c \<longleftrightarrow> (let n = (of_char c :: nat) in 48 \<le> n \<and> n \<le> 57)"

definition digit_val :: "char \<Rightarrow> int" where
  "digit_val c = int (of_char c) - 48"

text \<open>
  The digits of a decimal literal: at least one digit, and a single underscore only
  between two digits. \<open>prev\<close> says that the character before was a digit.
\<close>

fun digits_val :: "string \<Rightarrow> int \<Rightarrow> bool \<Rightarrow> int option" where
  "digits_val [] acc prev = (if prev then Some acc else None)"
| "digits_val (c # cs) acc prev =
     (if is_digit c then digits_val cs (acc * 10 + digit_val c) True
      else if c = CHR ''_'' \<and> prev \<and> (case cs of [] \<Rightarrow> False | d # _ \<Rightarrow> is_digit d)
        then digits_val cs acc False
      else None)"

text \<open>
  \<^verbatim>\<open>int(s)\<close> on ASCII text: surrounding whitespace is dropped, one sign is allowed, the
  rest is a decimal literal of at most \<^verbatim>\<open>sys.int_max_str_digits\<close> digits (4300, the default
  since Python 3.11; underscores do not count). \<open>None\<close> is the \<^verbatim>\<open>ValueError\<close>.
\<close>

definition INT_MAX_STR_DIGITS :: nat where
  "INT_MAX_STR_DIGITS = 4300"

definition py_int :: "string \<Rightarrow> int option" where
  "py_int s =
     (if INT_MAX_STR_DIGITS < length (filter is_digit s) then None
      else
        (case int_strip s of
           [] \<Rightarrow> None
         | c # cs \<Rightarrow>
             if c = CHR ''-'' then map_option uminus (digits_val cs 0 False)
             else if c = CHR ''+'' then digits_val cs 0 False
             else digits_val (c # cs) 0 False))"

text \<open>The integers that \<^verbatim>\<open>sqlite3\<close> binds: those of SQLite's signed 64-bit \<^verbatim>\<open>INTEGER\<close>.\<close>

definition fits_int64 :: "int \<Rightarrow> bool" where
  "fits_int64 n \<longleftrightarrow> - (2 ^ 63) \<le> n \<and> n \<le> 2 ^ 63 - 1"

text \<open>
  Truthiness of an optional integer, and \<^verbatim>\<open>a or b\<close>: \<^verbatim>\<open>None\<close> and \<^verbatim>\<open>0\<close> are false.
\<close>

definition truthy :: "int option \<Rightarrow> bool" where
  "truthy v = (case v of None \<Rightarrow> False | Some n \<Rightarrow> n \<noteq> 0)"

definition py_or :: "int option \<Rightarrow> int option \<Rightarrow> int option" where
  "py_or a b = (if truthy a then a else b)"

text \<open>
  \<^verbatim>\<open>timedelta(seconds=d)\<close> for an integer \<open>d\<close>, in microseconds: the number of whole days
  must have magnitude at most 999999999. \<^verbatim>\<open>datetime + timedelta\<close>: the result must lie
  in the years 1 to 9999.
\<close>

definition DATETIME_MIN :: timestamp where
  "DATETIME_MIN = - 62135596800000000"

definition DATETIME_MAX :: timestamp where
  "DATETIME_MAX = 253402300799999999"

definition py_timedelta_seconds :: "int \<Rightarrow> py_error + int" where
  "py_timedelta_seconds d =
     (if - 999999999 \<le> d div 86400 \<and> d div 86400 \<le> 999999999
      then Inr (d * 1000000) else Inl OverflowError)"

definition py_datetime_add :: "timestamp \<Rightarrow> int \<Rightarrow> py_error + timestamp" where
  "py_datetime_add t d =
     (if DATETIME_MIN \<le> t + d \<and> t + d \<le> DATETIME_MAX then Inr (t + d) else Inl OverflowError)"

subsection \<open>Config\<close>

definition ensure_default_config :: "(string \<times> string) list \<Rightarrow> string \<Rightarrow> string \<Rightarrow> (string \<times> string) list" where
  "ensure_default_config conn key val =
     (if map_of conn key = None then conn @ [(key, val)] else conn)"

definition get_config :: "(string \<times> string) list \<Rightarrow> string \<Rightarrow> string \<Rightarrow> string" where
  "get_config conn key dflt = (case map_of conn key of Some v \<Rightarrow> v | None \<Rightarrow> dflt)"

definition set_config :: "(string \<times> string) list \<Rightarrow> string \<Rightarrow> string \<Rightarrow> (string \<times> string) list" where
  "set_config conn key val = AList.update key val conn"

text \<open>
  \<^verbatim>\<open>init_db\<close>: the tables exist from the start (empty), so what is left of it is the
  three default config rows, each inserted only when its key is absent.
\<close>

definition init_db :: "store \<Rightarrow> store" where
  "init_db s =
     s\<lparr>kv :=
         ensure_default_config
           (ensure_default_config
              (ensure_default_config (kv s) ''max_retries_default'' str_DEFAULT_MAX_RETRIES)
              ''backoff_base'' str_DEFAULT_BACKOFF_BASE)
           ''poll_idle_secs'' str_DEFAULT_POLL_IDLE_SECS\<rparr>"

subsection \<open>Enqueue\<close>

text \<open>
  A job specification is the dictionary \<^verbatim>\<open>enqueue_job\<close> receives. Each key the function
  reads is a field; \<open>None\<close> says that the key is absent. The model covers specifications
  whose values have the type of the column they go to (text, an integer, an instant); for
  the two timeout keys, which the source reads with \<^verbatim>\<open>job.get\<close>, an absent key and a
  \<^verbatim>\<open>null\<close> are both \<open>None\<close>.
\<close>

record job_spec =
  spec_id :: "string option"
  spec_command :: "string option"
  spec_state :: "string option"
  spec_attempts :: "int option"
  spec_max_retries :: "int option"
  spec_created_at :: "timestamp option"
  spec_updated_at :: "timestamp option"
  spec_available_at :: "timestamp option"
  spec_priority :: "int option"
  spec_timeout :: "int option"
  spec_run_timeout :: "int option"

definition setdefault :: "'a option \<Rightarrow> 'a \<Rightarrow> 'a" where
  "setdefault v d = (case v of Some x \<Rightarrow> x | None \<Rightarrow> d)"

text \<open>
  The row \<^verbatim>\<open>enqueue_job\<close> inserts: \<open>uuid\<close> is the fresh \<^verbatim>\<open>uuid4\<close> text and \<open>now\<close> the
  reading of the clock. The five columns the \<^verbatim>\<open>INSERT\<close> does not name are \<^verbatim>\<open>NULL\<close>.
\<close>

definition enqueue_row :: "job_spec \<Rightarrow> string \<Rightarrow> string \<Rightarrow> timestamp \<Rightarrow> job" where
  "enqueue_row spec cmd uuid now =
     (let created = setdefault (spec_created_at spec) now in
      \<lparr>job_id = setdefault (spec_id spec) uuid,
       command = cmd,
       state = setdefault (spec_state spec) ''pending'',
       attempts = setdefault (spec_attempts spec) 0,
       max_retries = setdefault (spec_max_retries spec) DEFAULT_MAX_RETRIES,
       created_at = created,
       updated_at = setdefault (spec_updated_at spec) created,
       available_at = setdefault (spec_available_at spec) created,
       priority = setdefault (spec_priority spec) 0,
       run_timeout = py_or (py_or (spec_timeout spec) (spec_run_timeout spec)) None,
       worker_id = None,
       started_at = None,
       finished_at = None,
       last_error = None,
       job_output = None\<rparr>)"

text \<open>The four integers of the row are bound to the \<^verbatim>\<open>INSERT\<close>.\<close>

definition row_binds :: "job \<Rightarrow> bool" where
  "row_binds r \<longleftrightarrow>
     fits_int64 (attempts r) \<and> fits_int64 (max_retries r) \<and> fits_int64 (priority r)
     \<and> (case run_timeout r of None \<Rightarrow> True | Some t \<Rightarrow> fits_int64 t)"

text \<open>
  \<^verbatim>\<open>enqueue_job\<close>: \<^verbatim>\<open>init_db\<close> first; a missing \<^verbatim>\<open>command\<close> raises \<^verbatim>\<open>KeyError\<close> while the
  parameters are built; an integer outside 64 bits raises \<^verbatim>\<open>OverflowError\<close> when the
  parameters are bound; an id already in the table violates the primary key when the
  \<^verbatim>\<open>INSERT\<close> runs. On an error the store is as \<^verbatim>\<open>init_db\<close> left it.
\<close>

definition enqueue_job :: "store \<Rightarrow> job_spec \<Rightarrow> string \<Rightarrow> timestamp \<Rightarrow> store \<times> (py_error + string)" where
  "enqueue_job s spec uuid now =
     (let s1 = init_db s in
      case spec_command spec of
        None \<Rightarrow> (s1, Inl KeyError)
      | Some cmd \<Rightarrow>
          let row = enqueue_row spec cmd uuid now in
          if \<not> row_binds row then (s1, Inl OverflowError)
          else if job_id row \<in> set (map job_id (jobs s1)) then (s1, Inl IntegrityError)
          else (s1\<lparr>jobs := jobs s1 @ [row]\<rparr>, Inr (job_id row)))"

subsection \<open>Backoff\<close>

text \<open>
  \<^verbatim>\<open>int(pow(base, attempts))\<close> on two integers. With a non-negative exponent the power is
  an exact integer (the time and memory Python takes to compute a large one are outside
  the model). With a negative exponent Python converts base and exponent to floats
  and takes the float power: an integer too large for a float raises \<^verbatim>\<open>OverflowError\<close>,
  a zero base raises \<^verbatim>\<open>ZeroDivisionError\<close>, and otherwise the float lies strictly between
  -1 and 1 unless the base is 1 or -1, so that \<^verbatim>\<open>int\<close> truncates it to 0, 1 or -1. The
  power of -1 is -1 when the float exponent is an odd integer, which it is exactly when
  the exponent is odd and of magnitude below \<open>2^53\<close>: from there on every float is even.
\<close>

definition FLOAT_LIMIT :: int where
  "FLOAT_LIMIT = 2 ^ 1024 - 2 ^ 970"

definition compute_backoff_delay :: "int \<Rightarrow> int \<Rightarrow> py_error + int" where
  "compute_backoff_delay base n =
     (if 0 \<le> n then Inr (base ^ nat n)
      else if FLOAT_LIMIT \<le> \<bar>base\<bar> \<or> FLOAT_LIMIT \<le> \<bar>n\<bar> then Inl OverflowError
      else if base = 0 then Inl ZeroDivisionError
      else if base = 1 then Inr 1
      else if base = - 1 then Inr (if odd n \<and> \<bar>n\<bar> < 2 ^ 53 then - 1 else 1)
      else Inr 0)"

subsection \<open>Claim\<close>

text \<open>
  \<^verbatim>\<open>ORDER BY ... LIMIT 1\<close>: the first row of the sorted result. \<open>lt a b\<close> says that \<open>a\<close>
  sorts strictly before \<open>b\<close>; among rows that sort equal the model takes the one that
  comes first in the table (SQL leaves that choice open).
\<close>

fun first_by :: "('a \<Rightarrow> 'a \<Rightarrow> bool) \<Rightarrow> 'a list \<Rightarrow> 'a option" where
  "first_by lt [] = None"
| "first_by lt (x # xs) = Some (fold (\<lambda>y best. if lt y best then y else best) xs x)"

abbreviation (input) keep_less :: "('a \<Rightarrow> 'a \<Rightarrow> bool) \<Rightarrow> 'a \<Rightarrow> 'a \<Rightarrow> 'a" where
  "keep_less lt \<equiv> (\<lambda>y best. if lt y best then y else best)"

definition eligible :: "timestamp \<Rightarrow> job \<Rightarrow> bool" where
  "eligible now j \<longleftrightarrow> state j = ''pending'' \<and> available_at j \<le> now"

text \<open>\<^verbatim>\<open>ORDER BY priority ASC, created_at ASC\<close>.\<close>

definition order_before :: "job \<Rightarrow> job \<Rightarrow> bool" where
  "order_before a b \<longleftrightarrow>
     priority a < priority b \<or> (priority a = priority b \<and> created_at a < created_at b)"

definition select_next :: "timestamp \<Rightarrow> job list \<Rightarrow> job option" where
  "select_next now js = first_by order_before (filter (eligible now) js)"

text \<open>\<^verbatim>\<open>ORDER BY started_at DESC\<close>; SQLite sorts \<^verbatim>\<open>NULL\<close> below every value.\<close>

definition later_start :: "job \<Rightarrow> job \<Rightarrow> bool" where
  "later_start a b \<longleftrightarrow>
     (case started_at a of
        None \<Rightarrow> False
      | Some x \<Rightarrow> (case started_at b of None \<Rightarrow> True | Some y \<Rightarrow> y < x))"


definition claimed :: "string \<Rightarrow> timestamp \<Rightarrow> job \<Rightarrow> job" where
  "claimed w now r =
     r\<lparr>state := ''processing'', worker_id := Some w, started_at := Some now, updated_at := now\<rparr>"

text \<open>
  \<^verbatim>\<open>atomic_claim_next_job\<close>: the \<^verbatim>\<open>UPDATE\<close> rewrites every row whose id is the selected
  id, \<open>rowcount\<close> counts them, and the row returned is read back by worker id, state and
  newest \<^verbatim>\<open>started_at\<close>.
\<close>

definition atomic_claim_next_job :: "store \<Rightarrow> string \<Rightarrow> timestamp \<Rightarrow> store \<times> job option" where
  "atomic_claim_next_job s w now =
     (let sel = map_option job_id (select_next now (jobs s));
          hit = (\<lambda>r. Some (job_id r) = sel);
          rowcount = length (filter hit (jobs s));
          js = map (\<lambda>r. if hit r then claimed w now r else r) (jobs s)
      in if rowcount = 0 then (s, None)
         else (s\<lparr>jobs := js\<rparr>,
               first_by later_start
                 (filter (\<lambda>r. worker_id r = Some w \<and> state r = ''processing'') js)))"

subsection \<open>Finalization\<close>

text \<open>\<^verbatim>\<open>UPDATE jobs SET ... WHERE id=?\<close>.\<close>

definition update_where_id :: "string \<Rightarrow> (job \<Rightarrow> job) \<Rightarrow> job list \<Rightarrow> job list" where
  "update_where_id jid f js = map (\<lambda>r. if job_id r = jid then f r else r) js"

definition completed_row :: "timestamp \<Rightarrow> timestamp \<Rightarrow> string \<Rightarrow> job \<Rightarrow> job" where
  "completed_row t1 t2 out r =
     r\<lparr>state := ''completed'', finished_at := Some t1, updated_at := t2, job_output := Some out\<rparr>"

definition finish_job_success :: "store \<Rightarrow> string \<Rightarrow> string \<Rightarrow> timestamp \<Rightarrow> timestamp \<Rightarrow> store" where
  "finish_job_success s jid out t1 t2 =
     s\<lparr>jobs := update_where_id jid (completed_row t1 t2 out) (jobs s)\<rparr>"

text \<open>
  \<^verbatim>\<open>finish_job_failure\<close>: \<open>j\<close> is the row the worker got from its claim. The base is read
  and parsed and the delay computed before the branch, so their errors arise on both
  branches. On the dead branch \<open>t1\<close> and \<open>t2\<close> are the two \<^verbatim>\<open>now_utc()\<close> readings; on the
  other \<open>t1\<close> is the \<^verbatim>\<open>datetime.now\<close> the delay is added to and \<open>t2\<close> the \<^verbatim>\<open>now_utc()\<close>.
  The new attempts count is bound to the \<^verbatim>\<open>UPDATE\<close> and must fit 64 bits. Every error
  arises before the \<^verbatim>\<open>UPDATE\<close> runs, so an error leaves the store as it was.
\<close>

definition dead_row :: "int \<Rightarrow> timestamp \<Rightarrow> timestamp \<Rightarrow> string \<Rightarrow> job \<Rightarrow> job" where
  "dead_row n t1 t2 err r =
     r\<lparr>state := ''dead'', attempts := n, finished_at := Some t1, updated_at := t2,
       last_error := Some err\<rparr>"

definition retry_row :: "int \<Rightarrow> timestamp \<Rightarrow> timestamp \<Rightarrow> string \<Rightarrow> job \<Rightarrow> job" where
  "retry_row n next_time t2 err r =
     r\<lparr>state := ''pending'', attempts := n, available_at := next_time, updated_at := t2,
       last_error := Some err\<rparr>"

definition finish_job_failure :: "store \<Rightarrow> job \<Rightarrow> string \<Rightarrow> timestamp \<Rightarrow> timestamp \<Rightarrow> py_error + store" where
  "finish_job_failure s j err t1 t2 =
     (let n = attempts j + 1 in
      case py_int (get_config (kv s) ''backoff_base'' str_DEFAULT_BACKOFF_BASE) of
        None \<Rightarrow> Inl ValueError
      | Some base \<Rightarrow>
          (case compute_backoff_delay base n of
             Inl e \<Rightarrow> Inl e
           | Inr delay \<Rightarrow>
               if n > max_retries j then
                 if \<not> fits_int64 n then Inl OverflowError
                 else Inr (s\<lparr>jobs := update_where_id (job_id j)
                             (dead_row n t1 t2 err) (jobs s)\<rparr>)
               else
                 (case py_timedelta_seconds delay of
                    Inl e \<Rightarrow> Inl e
                  | Inr td \<Rightarrow>
                      (case py_datetime_add t1 td of
                         Inl e \<Rightarrow> Inl e
                       | Inr next_time \<Rightarrow>
                           if \<not> fits_int64 n then Inl OverflowError
                           else Inr (s\<lparr>jobs := update_where_id (job_id j)
                                       (retry_row n next_time t2 err) (jobs s)\<rparr>)))))"

text \<open>
  The delays, in seconds, that \<^verbatim>\<open>timedelta\<close> and the addition to the instant \<open>t\<close> both
  accept.
\<close>

definition delay_fits :: "timestamp \<Rightarrow> int \<Rightarrow> bool" where
  "delay_fits t d \<longleftrightarrow>
     - 999999999 \<le> d div 86400 \<and> d div 86400 \<le> 999999999
     \<and> DATETIME_MIN \<le> t + d * 1000000 \<and> t + d * 1000000 \<le> DATETIME_MAX"

subsection \<open>Commands\<close>


definition requeued_row :: "timestamp \<Rightarrow> timestamp \<Rightarrow> job \<Rightarrow> job" where
  "requeued_row t1 t2 r =
     r\<lparr>state := ''pending'', attempts := 0, available_at := t1, updated_at := t2,
       last_error := None, finished_at := None\<rparr>"

definition dlq_retry :: "store \<Rightarrow> string \<Rightarrow> timestamp \<Rightarrow> timestamp \<Rightarrow> py_error + store \<times> string" where
  "dlq_retry s jid t1 t2 =
     (let s1 = init_db s in
      Inr (s1\<lparr>jobs := update_where_id jid (requeued_row t1 t2) (jobs s1)\<rparr>,
           ''[green]Requeued:[/green] '' @ jid))"

definition config_set_cmd :: "store \<Rightarrow> string \<Rightarrow> string \<Rightarrow> py_error + store \<times> string" where
  "config_set_cmd s key val =
     (let s1 = init_db s in
      Inr (s1\<lparr>kv := set_config (kv s1) key val\<rparr>,
           ''[green]Updated[/green] '' @ key @ '' = '' @ val))"

subsection \<open>The worker's finalization of a claimed job\<close>

text \<open>
  The \<^verbatim>\<open>try\<close>/\<^verbatim>\<open>except\<close> of \<^verbatim>\<open>worker_loop\<close>. \<^verbatim>\<open>run_command\<close> is outside the model: what
  it did is the parameter \<open>res\<close>, either the triple it returned or the exception it
  raised. The store may fail too: \<open>fault1\<close> is the error, if any, that the store raises
  at the first statement of the finalization inside the \<^verbatim>\<open>try\<close>, and \<open>fault2\<close> the same
  for the finalization inside the handler. \<open>exc_text\<close> is Python's \<^verbatim>\<open>str\<close> of an
  exception. The result is the list of finalization calls made, in order, and either the
  store after the iteration (the loop goes on) or the exception that leaves
  \<^verbatim>\<open>worker_loop\<close> (the worker process ends).
\<close>

datatype run_result = Returned int string string | Raised py_error

datatype call = Call_finish_job_success string string | Call_finish_job_failure job string

definition with_fault :: "py_error option \<Rightarrow> py_error + store \<Rightarrow> py_error + store" where
  "with_fault fault r = (case fault of Some e \<Rightarrow> Inl e | None \<Rightarrow> r)"

definition try_block ::
  "py_error option \<Rightarrow> store \<Rightarrow> job \<Rightarrow> run_result \<Rightarrow> timestamp \<Rightarrow> timestamp
    \<Rightarrow> call list \<times> (py_error + store)" where
  "try_block fault1 s j res t1 t2 =
     (case res of
        Raised e \<Rightarrow> ([], Inl e)
      | Returned code out err \<Rightarrow>
          if code = 0 then
            ([Call_finish_job_success (job_id j) out],
             with_fault fault1 (Inr (finish_job_success s (job_id j) out t1 t2)))
          else
            ([Call_finish_job_failure j (py_strip err)],
             with_fault fault1 (finish_job_failure s j (py_strip err) t1 t2)))"

definition worker_finalize ::
  "(py_error \<Rightarrow> string) \<Rightarrow> py_error option \<Rightarrow> py_error option \<Rightarrow> store \<Rightarrow> job \<Rightarrow> run_result
    \<Rightarrow> timestamp \<Rightarrow> timestamp \<Rightarrow> timestamp \<Rightarrow> timestamp \<Rightarrow> call list \<times> (py_error + store)" where
  "worker_finalize exc_text fault1 fault2 s j res t1 t2 t3 t4 =
     (case try_block fault1 s j res t1 t2 of
        (calls, Inr s') \<Rightarrow> (calls, Inr s')
      | (calls, Inl e) \<Rightarrow>
          (calls @ [Call_finish_job_failure j (exc_text e)],
           with_fault fault2 (finish_job_failure s j (exc_text e) t3 t4)))"

subsection \<open>Runs of the system\<close>

text \<open>
  A state of the running system is the store together with the rows that claims have
  returned to workers and that are not finalized yet. A step is one operation: an
  enqueue, a claim by some worker, the finalization of a held row (success, or failure
  with some error text), or a \<^verbatim>\<open>dlq retry\<close>. A failure finalization that raises changes
  nothing in the store; the worker that held the row is gone.
\<close>

record sys =
  db :: store
  held :: "job list"

datatype op =
    Enqueue job_spec string timestamp
  | Claim string timestamp
  | Finalize_success nat string timestamp timestamp
  | Finalize_failure nat string timestamp timestamp
  | Dlq_retry string timestamp timestamp

definition drop_nth :: "nat \<Rightarrow> 'a list \<Rightarrow> 'a list" where
  "drop_nth i xs = take i xs @ drop (Suc i) xs"

fun apply_op :: "op \<Rightarrow> sys \<Rightarrow> sys" where
  "apply_op (Enqueue spec uuid now) \<sigma> = \<sigma>\<lparr>db := fst (enqueue_job (db \<sigma>) spec uuid now)\<rparr>"
| "apply_op (Claim w now) \<sigma> =
     (case atomic_claim_next_job (db \<sigma>) w now of
        (s, None) \<Rightarrow> \<sigma>\<lparr>db := s\<rparr>
      | (s, Some j) \<Rightarrow> \<lparr>db = s, held = held \<sigma> @ [j]\<rparr>)"
| "apply_op (Finalize_success i out t1 t2) \<sigma> =
     (if i < length (held \<sigma>)
      then \<lparr>db = finish_job_success (db \<sigma>) (job_id (held \<sigma> ! i)) out t1 t2,
            held = drop_nth i (held \<sigma>)\<rparr>
      else \<sigma>)"
| "apply_op (Finalize_failure i err t1 t2) \<sigma> =
     (if i < length (held \<sigma>)
      then (case finish_job_failure (db \<sigma>) (held \<sigma> ! i) err t1 t2 of
              Inr s \<Rightarrow> \<lparr>db = s, held = drop_nth i (held \<sigma>)\<rparr>
            | Inl e \<Rightarrow> \<sigma>\<lparr>held := drop_nth i (held \<sigma>)\<rparr>)
      else \<sigma>)"
| "apply_op (Dlq_retry jid t1 t2) \<sigma> =
     (case dlq_retry (db \<sigma>) jid t1 t2 of Inr (s, msg) \<Rightarrow> \<sigma>\<lparr>db := s\<rparr> | Inl e \<Rightarrow> \<sigma>)"

definition empty_store :: store where
  "empty_store = \<lparr>jobs = [], kv = [], workers = []\<rparr>"

definition initial :: sys where
  "initial = \<lparr>db = empty_store, held = []\<rparr>"

definition run :: "op list \<Rightarrow> sys" where
  "run ops = fold apply_op ops initial"

text \<open>
  The enqueues the bound on attempts is proved for: the specification gives no
  \<^verbatim>\<open>attempts\<close>, and no \<^verbatim>\<open>max_retries\<close> or a non-negative one.
\<close>

fun admissible :: "op \<Rightarrow> bool" where
  "admissible (Enqueue spec uuid now) \<longleftrightarrow>
     spec_attempts spec = None \<and> (case spec_max_retries spec of None \<Rightarrow> True | Some m \<Rightarrow> 0 \<le> m)"
| "admissible _ \<longleftrightarrow> True"

text \<open>The bound on the attempts of one row.\<close>

definition attempts_bounded :: "job \<Rightarrow> bool" where
  "attempts_bounded r \<longleftrightarrow>
     0 \<le> attempts r \<and> attempts r \<le> max_retries r + 1
     \<and> (attempts r = max_retries r + 1 \<longrightarrow>
          (state r = ''dead'' \<or> state r = ''completed'') \<and> last_error r \<noteq> None)"

text \<open>
  The invariant of runs: ids are unique, every row is within the bound and has a
  non-negative \<^verbatim>\<open>max_retries\<close>, and every held row has attempts left and is the snapshot of
  a row of the table (same id, same \<^verbatim>\<open>max_retries\<close>).
\<close>

definition id_max :: "job \<Rightarrow> string \<times> int" where
  "id_max r = (job_id r, max_retries r)"

definition sys_inv :: "sys \<Rightarrow> bool" where
  "sys_inv \<sigma> \<longleftrightarrow>
     distinct (map job_id (jobs (db \<sigma>)))
     \<and> (\<forall>r\<in>set (jobs (db \<sigma>)). attempts_bounded r \<and> 0 \<le> max_retries r)
     \<and> (\<forall>h\<in>set (held \<sigma>). 0 \<le> attempts h \<and> attempts h \<le> max_retries h
           \<and> id_max h \<in> id_max ` set (jobs (db \<sigma>)))"

section \<open>Concrete inputs\<close>

text \<open>The stores and specifications at which the theorems below are instantiated.\<close>

definition echo_spec :: job_spec where
  "echo_spec = \<lparr>spec_id = None, spec_command = Some ''echo hi'', spec_state = None,
     spec_attempts = None, spec_max_retries = None, spec_created_at = None,
     spec_updated_at = None, spec_available_at = None, spec_priority = None,
     spec_timeout = None, spec_run_timeout = None\<rparr>"

definition one_job_store :: store where
  "one_job_store = fst (enqueue_job empty_store echo_spec ''job-1'' 100)"

text \<open>The job of \<open>one_job_store\<close>, claimed by a worker at instant 200.\<close>

definition claimed_store :: store where
  "claimed_store = fst (atomic_claim_next_job one_job_store ''worker-1'' 200)"

definition claimed_job :: job where
  "claimed_job = the (snd (atomic_claim_next_job one_job_store ''worker-1'' 200))"

text \<open>The same store after \<^verbatim>\<open>config set backoff_base <value>\<close>.\<close>

definition big_base_store :: store where
  "big_base_store = fst (projr (config_set_cmd claimed_store ''backoff_base'' ''1000000000000''))"

definition bad_base_store :: store where
  "bad_base_store = fst (projr (config_set_cmd claimed_store ''backoff_base'' ''two''))"


text \<open>
  A text for \<^verbatim>\<open>str\<close> of an exception: the message of SQLite's busy error, for every
  exception.
\<close>

definition locked_text :: "py_error \<Rightarrow> string" where
  "locked_text e = ''database is locked''"

text \<open>
  Three jobs with priorities 5, 0 and 5, enqueued at the instants 100, 101 and 102.
\<close>

definition p6_store :: store where
  "p6_store =
     fst (enqueue_job
       (fst (enqueue_job
          (fst (enqueue_job empty_store (echo_spec\<lparr>spec_priority := Some 5\<rparr>) ''job-a'' 100))
          (echo_spec\<lparr>spec_priority := Some 0\<rparr>) ''job-b'' 101))
       (echo_spec\<lparr>spec_priority := Some 5\<rparr>) ''job-c'' 102)"

text \<open>
  Two jobs, enqueued at 100 and 150; \<^verbatim>\<open>worker-1\<close> has claimed the first at 200 and
  still holds it.
\<close>

definition held_store :: store where
  "held_store =
     fst (atomic_claim_next_job (fst (enqueue_job one_job_store echo_spec ''job-2'' 150))
            ''worker-1'' 200)"

text \<open>Runs of the system.\<close>

definition cex_ops_attempts :: "op list" where
  "cex_ops_attempts = [Enqueue (echo_spec\<lparr>spec_attempts := Some 5\<rparr>) ''job-1'' 100]"

definition cex_ops_negative :: "op list" where
  "cex_ops_negative = [Enqueue (echo_spec\<lparr>spec_max_retries := Some (- 1)\<rparr>) ''job-1'' 100]"

definition cex_ops_completed :: "op list" where
  "cex_ops_completed =
     [Enqueue (echo_spec\<lparr>spec_max_retries := Some 0\<rparr>) ''job-1'' 100,
      Claim ''worker-1'' 200,
      Dlq_retry ''job-1'' 250 251,
      Claim ''worker-2'' 300,
      Finalize_failure 1 ''boom'' 400 401,
      Finalize_success 0 ''hi'' 500 501]"

definition ok_ops :: "op list" where
  "ok_ops =
     [Enqueue (echo_spec\<lparr>spec_max_retries := Some 0\<rparr>) ''job-1'' 100,
      Claim ''worker-1'' 200,
      Finalize_failure 0 ''boom'' 400 401]"

section \<open>Properties\<close>

subsection \<open>Helper lemmas\<close>

lemma init_db_jobs: "jobs (init_db s) = jobs s"
  by (simp add: init_db_def)






lemmas concrete_defs =
  echo_spec_def one_job_store_def empty_store_def enqueue_job_def enqueue_row_def
  init_db_def ensure_default_config_def setdefault_def Let_def py_or_def truthy_def
  row_binds_def fits_int64_def DEFAULT_MAX_RETRIES_def str_DEFAULT_MAX_RETRIES_def str_DEFAULT_BACKOFF_BASE_def
  str_DEFAULT_POLL_IDLE_SECS_def

subsection \<open>Enqueue\<close>

text \<open>
  Claim C5 (the default of \<^verbatim>\<open>max_retries\<close> comes from the config key
  \<^verbatim>\<open>max_retries_default\<close>), evaluated on the code: after
  \<^verbatim>\<open>config set max_retries_default 5\<close> on a fresh store the key holds \<^verbatim>\<open>5\<close>, and a job
  enqueued without \<^verbatim>\<open>max_retries\<close> is stored with \<^verbatim>\<open>max_retries = 3\<close>, the constant
  \<^verbatim>\<open>DEFAULT_MAX_RETRIES\<close>. \<^verbatim>\<open>enqueue_job\<close> never reads the key.
\<close>

theorem enqueue_ignores_max_retries_default:
  "map (\<lambda>r. (job_id r, max_retries r))
     (jobs (fst (enqueue_job
        (fst (projr (config_set_cmd empty_store ''max_retries_default'' ''5'')))
        echo_spec ''job-1'' 100)))
   = [(''job-1'', 3)]
   \<and> map_of (kv (fst (projr (config_set_cmd empty_store ''max_retries_default'' ''5''))))
        ''max_retries_default'' = Some ''5''"
  by (simp add: config_set_cmd_def set_config_def concrete_defs)

text \<open>
  Claim C9. Take any job specification with a command, and let \<open>row\<close> be the row
  \<^verbatim>\<open>enqueue_job\<close> builds from it. Its \<^verbatim>\<open>run_timeout\<close> is the value of the key \<^verbatim>\<open>timeout\<close> if
  that is a non-zero integer; otherwise (the key is absent, \<^verbatim>\<open>null\<close> or 0) the value of the
  key \<^verbatim>\<open>run_timeout\<close> if that is a non-zero integer; otherwise \<^verbatim>\<open>NULL\<close>, so that a
  \<^verbatim>\<open>run_timeout\<close> of 0 is stored as \<^verbatim>\<open>NULL\<close>, which is what the worker later hands to the
  executor as its timeout. The row is appended to the jobs table, and its id returned,
  when its integers fit 64 bits and its id is not in the table; otherwise the call raises
  (\<^verbatim>\<open>OverflowError\<close>, or else \<^verbatim>\<open>IntegrityError\<close>) and no row is stored.
\<close>

theorem enqueue_run_timeout:
  assumes "spec_command spec = Some cmd"
  shows "(\<forall>n. spec_timeout spec = Some n \<and> n \<noteq> 0 \<longrightarrow>
            run_timeout (enqueue_row spec cmd uuid now) = Some n)
       \<and> (spec_timeout spec = None \<or> spec_timeout spec = Some 0 \<longrightarrow>
            (\<forall>m. spec_run_timeout spec = Some m \<and> m \<noteq> 0 \<longrightarrow>
               run_timeout (enqueue_row spec cmd uuid now) = Some m))
       \<and> ((spec_timeout spec = None \<or> spec_timeout spec = Some 0)
            \<and> (spec_run_timeout spec = None \<or> spec_run_timeout spec = Some 0) \<longrightarrow>
            run_timeout (enqueue_row spec cmd uuid now) = None)
       \<and> (row_binds (enqueue_row spec cmd uuid now)
            \<and> job_id (enqueue_row spec cmd uuid now) \<notin> set (map job_id (jobs s)) \<longrightarrow>
            enqueue_job s spec uuid now =
              ((init_db s)\<lparr>jobs := jobs s @ [enqueue_row spec cmd uuid now]\<rparr>,
               Inr (job_id (enqueue_row spec cmd uuid now))))
       \<and> (\<not> row_binds (enqueue_row spec cmd uuid now) \<longrightarrow>
            enqueue_job s spec uuid now = (init_db s, Inl OverflowError))
       \<and> (row_binds (enqueue_row spec cmd uuid now)
            \<and> job_id (enqueue_row spec cmd uuid now) \<in> set (map job_id (jobs s)) \<longrightarrow>
            enqueue_job s spec uuid now = (init_db s, Inl IntegrityError))"
proof -
  have rt: "run_timeout (enqueue_row spec cmd uuid now)
      = py_or (py_or (spec_timeout spec) (spec_run_timeout spec)) None"
    by (simp add: enqueue_row_def Let_def)
  have stored: "(\<forall>n. spec_timeout spec = Some n \<and> n \<noteq> 0 \<longrightarrow>
            run_timeout (enqueue_row spec cmd uuid now) = Some n)
       \<and> (spec_timeout spec = None \<or> spec_timeout spec = Some 0 \<longrightarrow>
            (\<forall>m. spec_run_timeout spec = Some m \<and> m \<noteq> 0 \<longrightarrow>
               run_timeout (enqueue_row spec cmd uuid now) = Some m))
       \<and> ((spec_timeout spec = None \<or> spec_timeout spec = Some 0)
            \<and> (spec_run_timeout spec = None \<or> spec_run_timeout spec = Some 0) \<longrightarrow>
            run_timeout (enqueue_row spec cmd uuid now) = None)"
    unfolding rt by (auto simp: py_or_def truthy_def)
  have call: "enqueue_job s spec uuid now =
      (if \<not> row_binds (enqueue_row spec cmd uuid now) then (init_db s, Inl OverflowError)
       else if job_id (enqueue_row spec cmd uuid now) \<in> set (map job_id (jobs s))
       then (init_db s, Inl IntegrityError)
       else ((init_db s)\<lparr>jobs := jobs s @ [enqueue_row spec cmd uuid now]\<rparr>,
             Inr (job_id (enqueue_row spec cmd uuid now))))"
    using assms by (simp add: enqueue_job_def Let_def init_db_jobs)
  show ?thesis
    using stored by (simp add: call)
qed

theorem enqueue_run_timeout_witness:
  "map run_timeout (jobs (fst (enqueue_job empty_store
      (echo_spec\<lparr>spec_timeout := Some 30, spec_run_timeout := Some 60\<rparr>) ''job-1'' 100)))
     = [Some 30]
   \<and> map run_timeout (jobs (fst (enqueue_job empty_store
      (echo_spec\<lparr>spec_timeout := Some 0, spec_run_timeout := Some 60\<rparr>) ''job-1'' 100)))
     = [Some 60]
   \<and> map run_timeout (jobs (fst (enqueue_job empty_store
      (echo_spec\<lparr>spec_run_timeout := Some 0\<rparr>) ''job-1'' 100)))
     = [None]
   \<and> enqueue_job empty_store (echo_spec\<lparr>spec_timeout := Some (2 ^ 63)\<rparr>) ''job-1'' 100
     = (init_db empty_store, Inl OverflowError)"
  using
    enqueue_run_timeout
      [of "echo_spec\<lparr>spec_timeout := Some 30, spec_run_timeout := Some 60\<rparr>" "''echo hi''"
          "''job-1''" 100 empty_store]
    enqueue_run_timeout
      [of "echo_spec\<lparr>spec_timeout := Some 0, spec_run_timeout := Some 60\<rparr>" "''echo hi''"
          "''job-1''" 100 empty_store]
    enqueue_run_timeout
      [of "echo_spec\<lparr>spec_run_timeout := Some 0\<rparr>" "''echo hi''" "''job-1''" 100 empty_store]
    enqueue_run_timeout
      [of "echo_spec\<lparr>spec_timeout := Some (2 ^ 63)\<rparr>" "''echo hi''" "''job-1''" 100
          empty_store]
  by (simp add: echo_spec_def empty_store_def setdefault_def enqueue_row_def row_binds_def
      fits_int64_def DEFAULT_MAX_RETRIES_def)

subsection \<open>Dead letter queue\<close>



subsection \<open>Evaluation of the concrete inputs\<close>

lemmas claim_defs =
  atomic_claim_next_job_def select_next_def eligible_def claimed_def later_start_def
  concrete_defs

lemmas py_int_defs =
  py_int_def int_strip_def is_int_space_def is_digit_def digit_val_def INT_MAX_STR_DIGITS_def

lemma py_int_eval:
  "py_int ''1000000000000'' = Some 1000000000000"
  "py_int ''two'' = None"
  "py_int ''2'' = Some 2"
  "py_int '' -1_0 '' = Some (- 10)"
  "py_int [CHR 0x1F, CHR ''3'', CHR 0x1C] = None"
  by (simp_all add: py_int_defs)

lemma py_int_digit_limit: "INT_MAX_STR_DIGITS < length (filter is_digit s) \<Longrightarrow> py_int s = None"
  by (simp add: py_int_def)

lemma py_int_too_long: "py_int (replicate 4301 (CHR ''1'')) = None"
  by (rule py_int_digit_limit) (simp add: INT_MAX_STR_DIGITS_def is_digit_def)

lemma str_defaults_parse:
  "py_int str_DEFAULT_MAX_RETRIES = Some DEFAULT_MAX_RETRIES"
  "py_int str_DEFAULT_BACKOFF_BASE = Some DEFAULT_BACKOFF_BASE"
  by (simp_all add: str_DEFAULT_MAX_RETRIES_def str_DEFAULT_BACKOFF_BASE_def
      DEFAULT_MAX_RETRIES_def DEFAULT_BACKOFF_BASE_def py_int_defs)

lemma claimed_job_eval:
  "claimed_job =
     \<lparr>job_id = ''job-1'', command = ''echo hi'', state = ''processing'', attempts = 0,
      max_retries = 3, created_at = 100, updated_at = 200, available_at = 100, priority = 0,
      run_timeout = None, worker_id = Some ''worker-1'', started_at = Some 200,
      finished_at = None, last_error = None, job_output = None\<rparr>"
  by (simp add: claimed_job_def claim_defs)

lemma claimed_store_eval:
  "claimed_store =
     \<lparr>jobs = [claimed_job],
      kv = [(''max_retries_default'', ''3''), (''backoff_base'', ''2''),
            (''poll_idle_secs'', ''0.5'')],
      workers = []\<rparr>"
  by (simp add: claimed_job_eval) (simp add: claimed_store_def claim_defs)


subsection \<open>Failure finalization\<close>

lemma failure_with_base:
  assumes "py_int (get_config (kv s) ''backoff_base'' str_DEFAULT_BACKOFF_BASE) = Some base"
    and "0 \<le> attempts j"
  shows "finish_job_failure s j err t1 t2 =
     (if attempts j + 1 > max_retries j
      then if fits_int64 (attempts j + 1)
        then Inr (s\<lparr>jobs := update_where_id (job_id j)
                    (dead_row (attempts j + 1) t1 t2 err) (jobs s)\<rparr>)
        else Inl OverflowError
      else if delay_fits t1 (base ^ nat (attempts j + 1)) \<and> fits_int64 (attempts j + 1)
      then Inr (s\<lparr>jobs := update_where_id (job_id j)
                  (retry_row (attempts j + 1) (t1 + base ^ nat (attempts j + 1) * 1000000)
                     t2 err) (jobs s)\<rparr>)
      else Inl OverflowError)"
  using assms
  by (auto simp: finish_job_failure_def Let_def compute_backoff_delay_def
      py_timedelta_seconds_def py_datetime_add_def delay_fits_def)

text \<open>
  Claim C2, as amended. Let the stored \<^verbatim>\<open>backoff_base\<close> parse to the integer \<open>base\<close>, let
  the job handed to \<^verbatim>\<open>finish_job_failure\<close> have \<open>a \<ge> 0\<close> attempts, and let \<open>a' = a + 1\<close>
  and \<open>delay = base ^ a'\<close>. If \<open>a' > max_retries\<close> and \<open>a'\<close> fits 64 bits, the rows with the
  job's id get \<^verbatim>\<open>state='dead'\<close>, \<^verbatim>\<open>attempts=a'\<close>, \<^verbatim>\<open>finished_at\<close> and \<^verbatim>\<open>updated_at\<close> set to
  the two readings of the clock, and \<^verbatim>\<open>last_error\<close> set to the error text. If
  \<open>a' \<le> max_retries\<close>, \<open>a'\<close> fits 64 bits, \<open>delay\<close> seconds is a valid \<^verbatim>\<open>timedelta\<close> and the
  clock reading plus the delay is a valid \<^verbatim>\<open>datetime\<close>, they get \<^verbatim>\<open>state='pending'\<close>,
  \<^verbatim>\<open>attempts=a'\<close>, \<^verbatim>\<open>available_at\<close> the reading plus \<open>delay\<close> seconds, \<^verbatim>\<open>updated_at\<close> the
  second reading and \<^verbatim>\<open>last_error\<close> the error text. In these two cases no other row and no
  other column changes. If \<open>a' \<le> max_retries\<close> and the delay is not valid in that way, or
  if \<open>a'\<close> does not fit 64 bits, the function raises \<^verbatim>\<open>OverflowError\<close> and writes nothing.
\<close>

theorem failure_sets_fields:
  assumes "py_int (get_config (kv s) ''backoff_base'' str_DEFAULT_BACKOFF_BASE) = Some base"
    and "0 \<le> attempts j"
  shows "(attempts j + 1 > max_retries j \<and> fits_int64 (attempts j + 1) \<longrightarrow>
            finish_job_failure s j err t1 t2 =
              Inr (s\<lparr>jobs := map (\<lambda>r. if job_id r = job_id j
                     then r\<lparr>state := ''dead'', attempts := attempts j + 1,
                            finished_at := Some t1, updated_at := t2, last_error := Some err\<rparr>
                     else r) (jobs s)\<rparr>))
       \<and> (attempts j + 1 \<le> max_retries j \<and> fits_int64 (attempts j + 1)
            \<and> delay_fits t1 (base ^ nat (attempts j + 1)) \<longrightarrow>
            finish_job_failure s j err t1 t2 =
              Inr (s\<lparr>jobs := map (\<lambda>r. if job_id r = job_id j
                     then r\<lparr>state := ''pending'', attempts := attempts j + 1,
                            available_at := t1 + base ^ nat (attempts j + 1) * 1000000,
                            updated_at := t2, last_error := Some err\<rparr>
                     else r) (jobs s)\<rparr>))
       \<and> (attempts j + 1 \<le> max_retries j \<and> \<not> delay_fits t1 (base ^ nat (attempts j + 1)) \<longrightarrow>
            finish_job_failure s j err t1 t2 = Inl OverflowError)
       \<and> (\<not> fits_int64 (attempts j + 1) \<longrightarrow>
            finish_job_failure s j err t1 t2 = Inl OverflowError)"
  by (simp add: failure_with_base[OF assms] update_where_id_def dead_row_def retry_row_def)

theorem failure_sets_fields_witness:
  "finish_job_failure claimed_store claimed_job ''boom'' 300 301 =
     Inr (claimed_store\<lparr>jobs :=
        [claimed_job\<lparr>state := ''pending'', attempts := 1, available_at := 2000300,
                     updated_at := 301, last_error := Some ''boom''\<rparr>]\<rparr>)"
  using failure_sets_fields[of claimed_store 2 claimed_job "''boom''" 300 301]
  by (simp add: claimed_store_eval get_config_def str_DEFAULT_BACKOFF_BASE_def py_int_eval)
     (simp add: claimed_job_eval delay_fits_def DATETIME_MIN_def DATETIME_MAX_def
        fits_int64_def)

text \<open>
  Claim C2 as stated fails: with \<^verbatim>\<open>backoff_base\<close> set to \<^verbatim>\<open>1000000000000\<close>, a processing job
  with no attempt so far and \<^verbatim>\<open>max_retries = 3\<close>, failing in November 2023, is not
  rescheduled. The delay of \<open>10^12\<close> seconds leads past the year 9999 and the function
  raises \<^verbatim>\<open>OverflowError\<close>.
\<close>

theorem failure_overflow_counterexample:
  "state claimed_job = ''processing''
   \<and> attempts claimed_job + 1 \<le> max_retries claimed_job
   \<and> finish_job_failure big_base_store claimed_job ''boom'' 1700000000000000 1700000000000001
       = Inl OverflowError"
  by (simp add: big_base_store_def claimed_store_eval config_set_cmd_def set_config_def
       init_db_def ensure_default_config_def finish_job_failure_def get_config_def py_int_eval
       compute_backoff_delay_def)
     (simp add: claimed_job_eval py_timedelta_seconds_def py_datetime_add_def DATETIME_MAX_def)

lemma update_where_id_keeps:
  assumes "\<And>r. g (f r) = g r"
  shows "map g (update_where_id jid f js) = map g js"
  by (induction js) (simp_all add: update_where_id_def assms)

lemma failure_Inr_cases:
  assumes "finish_job_failure s j err t1 t2 = Inr s'"
  shows "\<exists>f. s' = s\<lparr>jobs := update_where_id (job_id j) f (jobs s)\<rparr>
           \<and> (f = dead_row (attempts j + 1) t1 t2 err \<and> attempts j + 1 > max_retries j
               \<or> (\<exists>next_time. f = retry_row (attempts j + 1) next_time t2 err) \<and> attempts j + 1 \<le> max_retries j)"
  using assms
  by (auto simp: finish_job_failure_def Let_def split: option.splits sum.splits if_splits)

text \<open>
  Claim C4, as amended: a failure finalization that returns leaves the \<^verbatim>\<open>worker_id\<close> and
  the \<^verbatim>\<open>started_at\<close> of every row as they were. The \<^verbatim>\<open>UPDATE\<close> of neither branch names
  these columns, so a rescheduled job is pending and still carries the id of the worker
  that held it and the start of its last attempt.
\<close>

theorem failure_keeps_worker_id:
  assumes "finish_job_failure s j err t1 t2 = Inr s'"
  shows "map worker_id (jobs s') = map worker_id (jobs s)
       \<and> map started_at (jobs s') = map started_at (jobs s)"
proof -
  from failure_Inr_cases[OF assms] obtain f where
    s': "s' = s\<lparr>jobs := update_where_id (job_id j) f (jobs s)\<rparr>"
    and f: "f = dead_row (attempts j + 1) t1 t2 err \<or> (\<exists>next_time. f = retry_row (attempts j + 1) next_time t2 err)"
    by blast
  from f have "worker_id (f r) = worker_id r" and "started_at (f r) = started_at r" for r
    by (auto simp: dead_row_def retry_row_def)
  then show ?thesis
    by (simp add: s' update_where_id_keeps)
qed

theorem failure_keeps_worker_id_witness:
  "map worker_id (jobs (projr (finish_job_failure claimed_store claimed_job ''boom'' 300 301)))
     = [Some ''worker-1'']
   \<and> map started_at (jobs (projr (finish_job_failure claimed_store claimed_job ''boom'' 300 301)))
     = [Some 200]"
proof -
  have r: "finish_job_failure claimed_store claimed_job ''boom'' 300 301
      = Inr (claimed_store\<lparr>jobs := [retry_row 1 2000300 301 ''boom'' claimed_job]\<rparr>)"
    by (simp add: claimed_store_eval finish_job_failure_def get_config_def py_int_eval
          compute_backoff_delay_def)
       (simp add: claimed_job_eval py_timedelta_seconds_def py_datetime_add_def DATETIME_MAX_def
          DATETIME_MIN_def update_where_id_def fits_int64_def)
  show ?thesis
    using failure_keeps_worker_id[OF r] unfolding r
    by (simp add: claimed_store_eval claimed_job_eval retry_row_def)
qed

text \<open>
  Claim C4 as stated fails: the job claimed by \<^verbatim>\<open>worker-1\<close> at instant 200 and rescheduled
  by a failure is pending with \<^verbatim>\<open>worker_id = 'worker-1'\<close> and \<^verbatim>\<open>started_at = 200\<close>, not
  \<^verbatim>\<open>NULL\<close>.
\<close>

theorem failure_pending_with_worker_counterexample:
  "map (\<lambda>r. (state r, worker_id r, started_at r)) (jobs claimed_store)
     = [(''processing'', Some ''worker-1'', Some 200)]
   \<and> map (\<lambda>r. (state r, worker_id r, started_at r))
       (jobs (projr (finish_job_failure claimed_store claimed_job ''boom'' 300 301)))
     = [(''pending'', Some ''worker-1'', Some 200)]"
  by (simp add: claimed_store_eval finish_job_failure_def get_config_def py_int_eval
          compute_backoff_delay_def)
     (simp add: claimed_job_eval py_timedelta_seconds_def py_datetime_add_def DATETIME_MAX_def
          DATETIME_MIN_def update_where_id_def retry_row_def fits_int64_def)

text \<open>
  Claim C8, as amended. The base 2 is used when the key \<^verbatim>\<open>backoff_base\<close> is absent from
  the config table: the function then does what it does for a stored \<^verbatim>\<open>2\<close> (for a job with
  \<open>a \<ge> 0\<close> attempts: the dead row, the rescheduled row with a delay of \<open>2 ^ (a + 1)\<close>
  seconds, or \<^verbatim>\<open>OverflowError\<close>). When the key is present and its value is ASCII text that
  \<^verbatim>\<open>int\<close> does not parse, \<^verbatim>\<open>int\<close> raises: the function fails with \<^verbatim>\<open>ValueError\<close> and writes
  nothing, whatever the job.
\<close>

theorem failure_base_fallback:
  "(map_of (kv s) ''backoff_base'' = None \<and> 0 \<le> attempts j \<longrightarrow>
      finish_job_failure s j err t1 t2 =
        (if attempts j + 1 > max_retries j
         then if fits_int64 (attempts j + 1)
           then Inr (s\<lparr>jobs := update_where_id (job_id j)
                       (dead_row (attempts j + 1) t1 t2 err) (jobs s)\<rparr>)
           else Inl OverflowError
         else if delay_fits t1 (2 ^ nat (attempts j + 1)) \<and> fits_int64 (attempts j + 1)
         then Inr (s\<lparr>jobs := update_where_id (job_id j)
                     (retry_row (attempts j + 1) (t1 + 2 ^ nat (attempts j + 1) * 1000000)
                        t2 err) (jobs s)\<rparr>)
         else Inl OverflowError))
   \<and> (\<forall>v. map_of (kv s) ''backoff_base'' = Some v \<and> is_ascii v \<and> py_int v = None \<longrightarrow>
      finish_job_failure s j err t1 t2 = Inl ValueError)"
proof (intro conjI impI allI)
  assume a: "map_of (kv s) ''backoff_base'' = None \<and> 0 \<le> attempts j"
  then have "py_int (get_config (kv s) ''backoff_base'' str_DEFAULT_BACKOFF_BASE) = Some 2"
    by (simp add: get_config_def str_DEFAULT_BACKOFF_BASE_def py_int_eval)
  from failure_with_base[OF this] a
  show "finish_job_failure s j err t1 t2 =
        (if attempts j + 1 > max_retries j
         then if fits_int64 (attempts j + 1)
           then Inr (s\<lparr>jobs := update_where_id (job_id j)
                       (dead_row (attempts j + 1) t1 t2 err) (jobs s)\<rparr>)
           else Inl OverflowError
         else if delay_fits t1 (2 ^ nat (attempts j + 1)) \<and> fits_int64 (attempts j + 1)
         then Inr (s\<lparr>jobs := update_where_id (job_id j)
                     (retry_row (attempts j + 1) (t1 + 2 ^ nat (attempts j + 1) * 1000000)
                        t2 err) (jobs s)\<rparr>)
         else Inl OverflowError)"
    by blast
next
  fix v assume "map_of (kv s) ''backoff_base'' = Some v \<and> is_ascii v \<and> py_int v = None"
  then show "finish_job_failure s j err t1 t2 = Inl ValueError"
    by (simp add: finish_job_failure_def get_config_def)
qed

theorem failure_base_fallback_witness:
  "finish_job_failure (claimed_store\<lparr>kv := []\<rparr>) claimed_job ''boom'' 300 301
     = Inr (claimed_store\<lparr>kv := [], jobs := [retry_row 1 2000300 301 ''boom'' claimed_job]\<rparr>)
   \<and> finish_job_failure bad_base_store claimed_job ''boom'' 300 301 = Inl ValueError"
  using failure_base_fallback[of "claimed_store\<lparr>kv := []\<rparr>" claimed_job "''boom''" 300 301]
    failure_base_fallback[of bad_base_store claimed_job "''boom''" 300 301]
  by (simp add: claimed_store_eval bad_base_store_def config_set_cmd_def set_config_def
       init_db_def ensure_default_config_def py_int_eval is_ascii_def)
     (simp add: claimed_store_eval claimed_job_eval delay_fits_def DATETIME_MAX_def
       DATETIME_MIN_def update_where_id_def fits_int64_def)

text \<open>
  Claim C8 as stated fails: after \<^verbatim>\<open>config set backoff_base two\<close> the failure finalization
  of the claimed job raises \<^verbatim>\<open>ValueError\<close>.
\<close>

theorem failure_malformed_base_counterexample:
  "map_of (kv bad_base_store) ''backoff_base'' = Some ''two''
   \<and> is_ascii ''two''
   \<and> py_int ''two'' = None
   \<and> finish_job_failure bad_base_store claimed_job ''boom'' 300 301 = Inl ValueError"
  by (simp add: bad_base_store_def claimed_store_eval config_set_cmd_def set_config_def
       init_db_def ensure_default_config_def finish_job_failure_def get_config_def py_int_eval
       is_ascii_def)

lemma update_where_id_distinct:
  assumes "distinct (map job_id js)" and "r \<in> set js"
  shows "update_where_id (job_id r) f js = map (\<lambda>x. if x = r then f r else x) js"
proof -
  from assms(1) have "inj_on job_id (set js)"
    by (simp add: distinct_map)
  with assms(2) have "job_id x = job_id r \<longleftrightarrow> x = r" if "x \<in> set js" for x
    using that by (auto dest: inj_onD)
  then show ?thesis
    by (simp add: update_where_id_def cong: map_cong)
qed

subsection \<open>Retry from the dead letter queue\<close>




subsection \<open>The worker's handler\<close>

text \<open>
  Claim C7, as amended. In the worker's \<^verbatim>\<open>try\<close>/\<^verbatim>\<open>except\<close>: an exception raised by the
  executor is converted into one \<^verbatim>\<open>finish_job_failure\<close> call with the exception's text; an
  error that the store raises during the finalization inside the \<^verbatim>\<open>try\<close> (success or
  failure) is caught by the same handler and converted into a further
  \<^verbatim>\<open>finish_job_failure\<close> call with that error's text; an error raised by the finalization
  inside the handler is the one that propagates, after which no further call is made and
  the worker ends; and when the finalization inside the \<^verbatim>\<open>try\<close> returns, the handler does
  not run.
\<close>

theorem worker_finalize_conversion:
  "(res = Raised e \<longrightarrow>
      worker_finalize exc_text fault1 fault2 s j res t1 t2 t3 t4 =
        ([Call_finish_job_failure j (exc_text e)],
         with_fault fault2 (finish_job_failure s j (exc_text e) t3 t4)))
   \<and> (res = Returned code out err \<and> fault1 = Some e \<longrightarrow>
      worker_finalize exc_text fault1 fault2 s j res t1 t2 t3 t4 =
        ([if code = 0 then Call_finish_job_success (job_id j) out
          else Call_finish_job_failure j (py_strip err),
          Call_finish_job_failure j (exc_text e)],
         with_fault fault2 (finish_job_failure s j (exc_text e) t3 t4)))
   \<and> (snd (try_block fault1 s j res t1 t2) = Inl e \<and> fault2 = Some e' \<longrightarrow>
      worker_finalize exc_text fault1 fault2 s j res t1 t2 t3 t4 =
        (fst (try_block fault1 s j res t1 t2) @ [Call_finish_job_failure j (exc_text e)], Inl e'))
   \<and> (\<forall>s'. snd (try_block fault1 s j res t1 t2) = Inr s' \<longrightarrow>
      worker_finalize exc_text fault1 fault2 s j res t1 t2 t3 t4 = try_block fault1 s j res t1 t2)"
  by (auto simp: worker_finalize_def try_block_def with_fault_def split: prod.splits sum.splits)

theorem worker_finalize_conversion_witness:
  "worker_finalize locked_text None (Some OperationalError) bad_base_store claimed_job
     (Returned 1 '''' '' boom '') 300 301 302 303
   = ([Call_finish_job_failure claimed_job ''boom'',
       Call_finish_job_failure claimed_job ''database is locked''], Inl OperationalError)"
  using worker_finalize_conversion[of "Returned 1 '''' '' boom ''" ValueError locked_text None "Some OperationalError"
      bad_base_store claimed_job 300 301 302 303 1 "''''" "'' boom ''" OperationalError]
  by (simp add: try_block_def with_fault_def bad_base_store_def claimed_store_eval config_set_cmd_def set_config_def
       init_db_def ensure_default_config_def finish_job_failure_def get_config_def py_int_eval locked_text_def
       py_strip_def is_space_def)

text \<open>
  Claim C7 as stated fails: the command exits with code 0 and the store raises while
  \<^verbatim>\<open>finish_job_success\<close> runs. The error does not propagate. The handler calls
  \<^verbatim>\<open>finish_job_failure\<close> with the error's text, the job is rescheduled as failed once,
  and the loop goes on.
\<close>

theorem worker_swallows_store_error_counterexample:
  "worker_finalize locked_text (Some OperationalError) None claimed_store claimed_job
     (Returned 0 ''hi'' '''') 300 301 302 303
   = ([Call_finish_job_success ''job-1'' ''hi'',
       Call_finish_job_failure claimed_job ''database is locked''],
      Inr (claimed_store\<lparr>jobs :=
        [claimed_job\<lparr>state := ''pending'', attempts := 1, available_at := 2000302,
                     updated_at := 303, last_error := Some ''database is locked''\<rparr>]\<rparr>))"
  by (simp add: worker_finalize_def try_block_def with_fault_def locked_text_def
        claimed_store_eval finish_job_failure_def get_config_def py_int_eval compute_backoff_delay_def)
     (simp add: claimed_store_eval claimed_job_eval py_timedelta_seconds_def
          py_datetime_add_def DATETIME_MAX_def DATETIME_MIN_def update_where_id_def retry_row_def
          fits_int64_def)

subsection \<open>Claim\<close>

lemma fold_keep_in: "fold (keep_less lt) xs x \<in> set (x # xs)"
  by (induction xs arbitrary: x) auto



lemma first_by_None: "first_by lt xs = None \<longleftrightarrow> xs = []"
  by (cases xs) simp_all












lemma claim_selected:
  assumes sel: "select_next now (jobs s) = Some c" and c: "c \<in> set (jobs s)"
    and dist: "distinct (map job_id (jobs s))"
  shows "atomic_claim_next_job s w now =
           (s\<lparr>jobs := map (\<lambda>r. if r = c then claimed w now c else r) (jobs s)\<rparr>,
            first_by later_start
              (filter (\<lambda>r. worker_id r = Some w \<and> state r = ''processing'')
                 (map (\<lambda>r. if r = c then claimed w now c else r) (jobs s))))"
proof -
  from dist have "inj_on job_id (set (jobs s))"
    by (simp add: distinct_map)
  with c have same: "job_id r = job_id c \<longleftrightarrow> r = c" if "r \<in> set (jobs s)" for r
    using that by (auto dest: inj_onD)
  have upd: "map (\<lambda>r. if job_id r = job_id c then claimed w now r else r) (jobs s)
      = map (\<lambda>r. if r = c then claimed w now c else r) (jobs s)"
    by (rule map_cong) (auto simp: same)
  have "filter (\<lambda>r. job_id r = job_id c) (jobs s) \<noteq> []"
    using c by (auto simp: filter_empty_conv)
  then show ?thesis
    by (simp add: atomic_claim_next_job_def sel Let_def upd)
qed

lemma mem_not_Nil: "x \<in> set xs \<Longrightarrow> xs \<noteq> []"
  by auto

lemma claimed_in_update:
  "c \<in> set js \<Longrightarrow> claimed w now c \<in> set (map (\<lambda>r. if r = c then claimed w now c else r) js)"
  by (auto intro!: image_eqI[of _ _ c])




lemma p6_jobs_eval:
  "map (\<lambda>r. (job_id r, state r, priority r, created_at r, available_at r, worker_id r, started_at r))
     (jobs p6_store)
   = [(''job-a'', ''pending'', 5, 100, 100, None, None),
      (''job-b'', ''pending'', 0, 101, 101, None, None),
      (''job-c'', ''pending'', 5, 102, 102, None, None)]"
  by (simp add: p6_store_def concrete_defs)

lemma held_jobs_eval:
  "map (\<lambda>r. (job_id r, state r, priority r, created_at r, available_at r, worker_id r, started_at r))
     (jobs held_store)
   = [(''job-1'', ''processing'', 0, 100, 100, Some ''worker-1'', Some 200),
      (''job-2'', ''pending'', 0, 150, 150, None, None)]"
  by (simp add: held_store_def claim_defs order_before_def)



subsection \<open>The bound on attempts in runs\<close>

lemma first_by_in: "first_by lt xs = Some m \<Longrightarrow> m \<in> set xs"
  using fold_keep_in[of lt] by (cases xs) auto

lemma select_next_in:
  assumes "select_next now js = Some c"
  shows "c \<in> set js \<and> eligible now c"
  using first_by_in[of order_before "filter (eligible now) js" c] assms
  by (simp add: select_next_def)

lemma update_where_id_set:
  "r' \<in> set (update_where_id jid f js) \<Longrightarrow>
     r' \<in> set js \<or> (\<exists>r\<in>set js. job_id r = jid \<and> r' = f r)"
  by (auto simp: update_where_id_def split: if_splits)

lemma id_max_update:
  assumes "\<And>r. id_max (f r) = id_max r"
  shows "id_max ` set (update_where_id jid f js) = id_max ` set js"
proof -
  have "map id_max (update_where_id jid f js) = map id_max js"
    by (rule update_where_id_keeps) (rule assms)
  then have "set (map id_max (update_where_id jid f js)) = set (map id_max js)"
    by simp
  then show ?thesis by simp
qed

lemma job_id_update:
  assumes "\<And>r. job_id (f r) = job_id r"
  shows "map job_id (update_where_id jid f js) = map job_id js"
  by (rule update_where_id_keeps) (rule assms)

text \<open>A row update that keeps id and max_retries and maps bounded rows to bounded rows.\<close>

lemma sys_inv_update:
  assumes inv: "sys_inv \<sigma>"
    and ids: "\<And>r. id_max (f r) = id_max r"
    and ok: "\<And>r. r \<in> set (jobs (db \<sigma>)) \<Longrightarrow> job_id r = jid \<Longrightarrow> attempts_bounded (f r)"
    and sub: "set hs \<subseteq> set (held \<sigma>)"
  shows "sys_inv \<lparr>db = (db \<sigma>)\<lparr>jobs := update_where_id jid f (jobs (db \<sigma>))\<rparr>, held = hs\<rparr>"
proof -
  have jid: "job_id (f r) = job_id r" and mx: "max_retries (f r) = max_retries r" for r
    using ids[of r] by (simp_all add: id_max_def)
  have d: "distinct (map job_id (update_where_id jid f (jobs (db \<sigma>))))"
    using inv by (simp add: job_id_update[of f, OF jid] sys_inv_def)
  have rows: "attempts_bounded r' \<and> 0 \<le> max_retries r'"
    if "r' \<in> set (update_where_id jid f (jobs (db \<sigma>)))" for r'
    using update_where_id_set[OF that] inv ok
    by (auto simp: sys_inv_def mx)
  have hs: "0 \<le> attempts h \<and> attempts h \<le> max_retries h
      \<and> id_max h \<in> id_max ` set (update_where_id jid f (jobs (db \<sigma>)))"
    if "h \<in> set hs" for h
    using that sub inv by (auto simp: sys_inv_def id_max_update[of f, OF ids])
  show ?thesis
    unfolding sys_inv_def using d rows hs by simp
qed

lemma drop_nth_subset: "set (drop_nth i xs) \<subseteq> set xs"
  by (auto simp: drop_nth_def dest: in_set_takeD in_set_dropD)

lemma sys_inv_enqueue:
  assumes inv: "sys_inv \<sigma>" and adm: "admissible (Enqueue spec uuid now)"
  shows "sys_inv (apply_op (Enqueue spec uuid now) \<sigma>)"
proof (cases "spec_command spec")
  case None
  then show ?thesis
    using inv by (simp add: enqueue_job_def sys_inv_def init_db_jobs)
next
  case (Some cmd)
  let ?row = "enqueue_row spec cmd uuid now"
  show ?thesis
  proof (cases "row_binds ?row \<and> job_id ?row \<notin> set (map job_id (jobs (db \<sigma>)))")
    case False
    then have "jobs (db (apply_op (Enqueue spec uuid now) \<sigma>)) = jobs (db \<sigma>)"
      and "held (apply_op (Enqueue spec uuid now) \<sigma>) = held \<sigma>"
      using Some by (auto simp: enqueue_job_def init_db_jobs Let_def)
    then show ?thesis
      using inv by (simp add: sys_inv_def)
  next
    case True
    have row: "attempts_bounded ?row \<and> 0 \<le> max_retries ?row"
      using adm
      by (auto simp: enqueue_row_def attempts_bounded_def setdefault_def DEFAULT_MAX_RETRIES_def
          Let_def split: option.splits)
    have "db (apply_op (Enqueue spec uuid now) \<sigma>) = (init_db (db \<sigma>))\<lparr>jobs := jobs (db \<sigma>) @ [?row]\<rparr>"
      and "held (apply_op (Enqueue spec uuid now) \<sigma>) = held \<sigma>"
      using True Some by (simp_all add: enqueue_job_def init_db_jobs Let_def)
    then show ?thesis
      using inv row True by (auto simp: sys_inv_def)
  qed
qed

lemma attempts_bounded_claimed:
  "attempts_bounded r \<Longrightarrow> state r = ''pending'' \<Longrightarrow> attempts_bounded (claimed w now r)"
  by (auto simp: attempts_bounded_def claimed_def)

lemma sys_inv_claim:
  assumes inv: "sys_inv \<sigma>"
  shows "sys_inv (apply_op (Claim w now) \<sigma>)"
proof (cases "select_next now (jobs (db \<sigma>))")
  case None
  then have "atomic_claim_next_job (db \<sigma>) w now = (db \<sigma>, None)"
    by (simp add: atomic_claim_next_job_def)
  then show ?thesis using inv by simp
next
  case (Some c)
  from select_next_in[OF Some] have c: "c \<in> set (jobs (db \<sigma>))" and el: "eligible now c"
    by simp_all
  from inv have dist: "distinct (map job_id (jobs (db \<sigma>)))"
    by (simp add: sys_inv_def)
  let ?js = "map (\<lambda>r. if r = c then claimed w now c else r) (jobs (db \<sigma>))"
  let ?P = "\<lambda>r. worker_id r = Some w \<and> state r = ''processing''"
  have js: "?js = update_where_id (job_id c) (claimed w now) (jobs (db \<sigma>))"
    using update_where_id_distinct[OF dist c, of "claimed w now"] by simp
  note eq = claim_selected[OF Some c dist, of w]
  have "claimed w now c \<in> set (filter ?P ?js)"
    using c by (simp add: claimed_in_update) (simp add: claimed_def)
  then have "filter ?P ?js \<noteq> []" by (rule mem_not_Nil)
  then obtain m where m: "first_by later_start (filter ?P ?js) = Some m"
    by (cases "first_by later_start (filter ?P ?js)") (simp_all add: first_by_None)
  from first_by_in[OF m] have m_in: "m \<in> set ?js" and m_proc: "state m = ''processing''"
    by simp_all
  have step: "apply_op (Claim w now) \<sigma>
      = \<lparr>db = (db \<sigma>)\<lparr>jobs := update_where_id (job_id c) (claimed w now) (jobs (db \<sigma>))\<rparr>,
         held = held \<sigma> @ [m]\<rparr>"
    by (simp add: eq m js[symmetric])
  have pres: "sys_inv \<lparr>db = (db \<sigma>)\<lparr>jobs := update_where_id (job_id c) (claimed w now) (jobs (db \<sigma>))\<rparr>,
         held = held \<sigma>\<rparr>"
  proof (rule sys_inv_update[OF inv])
    show "id_max (claimed w now r) = id_max r" for r
      by (simp add: id_max_def claimed_def)
    show "attempts_bounded (claimed w now r)"
      if "r \<in> set (jobs (db \<sigma>))" and "job_id r = job_id c" for r
    proof -
      from dist have "inj_on job_id (set (jobs (db \<sigma>)))" by (simp add: distinct_map)
      with that c have "r = c" by (auto dest: inj_onD)
      with el inv c show ?thesis
        by (auto simp: sys_inv_def eligible_def intro: attempts_bounded_claimed)
    qed
    show "set (held \<sigma>) \<subseteq> set (held \<sigma>)" by simp
  qed
  from pres m_in have mb: "attempts_bounded m" and mm: "0 \<le> max_retries m"
    by (auto simp: sys_inv_def js)
  from mb m_proc have "0 \<le> attempts m \<and> attempts m \<le> max_retries m"
    by (auto simp: attempts_bounded_def)
  moreover have "id_max m \<in> id_max ` set (update_where_id (job_id c) (claimed w now) (jobs (db \<sigma>)))"
    using m_in by (simp add: js)
  ultimately show ?thesis
    using pres unfolding step sys_inv_def by auto
qed

lemma sys_inv_success:
  assumes inv: "sys_inv \<sigma>"
  shows "sys_inv (apply_op (Finalize_success i out t1 t2) \<sigma>)"
proof (cases "i < length (held \<sigma>)")
  case False
  then show ?thesis using inv by simp
next
  case True
  have "sys_inv \<lparr>db = (db \<sigma>)\<lparr>jobs := update_where_id (job_id (held \<sigma> ! i))
        (completed_row t1 t2 out) (jobs (db \<sigma>))\<rparr>, held = drop_nth i (held \<sigma>)\<rparr>"
  proof (rule sys_inv_update[OF inv])
    show "id_max (completed_row t1 t2 out r) = id_max r" for r
      by (simp add: id_max_def completed_row_def)
    show "attempts_bounded (completed_row t1 t2 out r)"
      if "r \<in> set (jobs (db \<sigma>))" for r
      using inv that by (auto simp: sys_inv_def attempts_bounded_def completed_row_def)
    show "set (drop_nth i (held \<sigma>)) \<subseteq> set (held \<sigma>)" by (rule drop_nth_subset)
  qed
  then show ?thesis using True by (simp add: finish_job_success_def)
qed

lemma sys_inv_failure:
  assumes inv: "sys_inv \<sigma>"
  shows "sys_inv (apply_op (Finalize_failure i err t1 t2) \<sigma>)"
proof (cases "i < length (held \<sigma>)")
  case False
  then show ?thesis using inv by simp
next
  case True
  let ?h = "held \<sigma> ! i"
  from True have h_in: "?h \<in> set (held \<sigma>)" by simp
  with inv have h: "0 \<le> attempts ?h" "attempts ?h \<le> max_retries ?h"
    "id_max ?h \<in> id_max ` set (jobs (db \<sigma>))"
    by (auto simp: sys_inv_def)
  from inv have dist: "inj_on job_id (set (jobs (db \<sigma>)))"
    by (simp add: sys_inv_def distinct_map)
  have same_max: "max_retries r = max_retries ?h"
    if "r \<in> set (jobs (db \<sigma>))" and "job_id r = job_id ?h" for r
  proof -
    from h(3) obtain r0 where r0: "r0 \<in> set (jobs (db \<sigma>))" "id_max r0 = id_max ?h"
      by auto
    with that have "job_id r = job_id r0" by (simp add: id_max_def)
    with that(1) r0(1) have "r = r0" using inj_onD[OF dist] by blast
    with r0 show ?thesis by (simp add: id_max_def)
  qed
  show ?thesis
  proof (cases "finish_job_failure (db \<sigma>) ?h err t1 t2")
    case (Inl e)
    have "sys_inv (\<sigma>\<lparr>held := drop_nth i (held \<sigma>)\<rparr>)"
      using inv drop_nth_subset[of i "held \<sigma>"] by (auto simp: sys_inv_def)
    then show ?thesis using True Inl by simp
  next
    case (Inr s')
    from failure_Inr_cases[OF Inr] obtain f where
      s': "s' = (db \<sigma>)\<lparr>jobs := update_where_id (job_id ?h) f (jobs (db \<sigma>))\<rparr>"
      and f: "f = dead_row (attempts ?h + 1) t1 t2 err \<and> attempts ?h + 1 > max_retries ?h
           \<or> (\<exists>next_time. f = retry_row (attempts ?h + 1) next_time t2 err)
               \<and> attempts ?h + 1 \<le> max_retries ?h"
      by blast
    have "sys_inv \<lparr>db = (db \<sigma>)\<lparr>jobs := update_where_id (job_id ?h) f (jobs (db \<sigma>))\<rparr>,
        held = drop_nth i (held \<sigma>)\<rparr>"
    proof (rule sys_inv_update[OF inv])
      show "id_max (f r) = id_max r" for r
        using f by (auto simp: id_max_def dead_row_def retry_row_def)
      show "attempts_bounded (f r)"
        if "r \<in> set (jobs (db \<sigma>))" and "job_id r = job_id ?h" for r
        using f h(1,2) same_max[OF that]
        by (auto simp: attempts_bounded_def dead_row_def retry_row_def)
      show "set (drop_nth i (held \<sigma>)) \<subseteq> set (held \<sigma>)" by (rule drop_nth_subset)
    qed
    then show ?thesis using True Inr s' by simp
  qed
qed

lemma sys_inv_dlq:
  assumes inv: "sys_inv \<sigma>"
  shows "sys_inv (apply_op (Dlq_retry jid t1 t2) \<sigma>)"
proof -
  have "sys_inv \<lparr>db = (db \<sigma>)\<lparr>jobs := update_where_id jid (requeued_row t1 t2) (jobs (db \<sigma>))\<rparr>,
      held = held \<sigma>\<rparr>"
  proof (rule sys_inv_update[OF inv])
    show "id_max (requeued_row t1 t2 r) = id_max r" for r
      by (simp add: id_max_def requeued_row_def)
    show "attempts_bounded (requeued_row t1 t2 r)"
      if "r \<in> set (jobs (db \<sigma>))" for r
      using inv that by (auto simp: sys_inv_def attempts_bounded_def requeued_row_def)
    show "set (held \<sigma>) \<subseteq> set (held \<sigma>)" by simp
  qed
  then have "sys_inv \<lparr>db = (init_db (db \<sigma>))\<lparr>jobs := update_where_id jid (requeued_row t1 t2)
      (jobs (db \<sigma>))\<rparr>, held = held \<sigma>\<rparr>"
    by (simp add: sys_inv_def)
  then show ?thesis
    by (simp add: dlq_retry_def Let_def init_db_jobs sys_inv_def)
qed

lemma sys_inv_step: "sys_inv \<sigma> \<Longrightarrow> admissible x \<Longrightarrow> sys_inv (apply_op x \<sigma>)"
  by (cases x) (simp_all only: sys_inv_enqueue sys_inv_claim sys_inv_success sys_inv_failure
      sys_inv_dlq)

lemma sys_inv_fold:
  "sys_inv \<sigma> \<Longrightarrow> \<forall>x\<in>set xs. admissible x \<Longrightarrow> sys_inv (fold apply_op xs \<sigma>)"
  by (induction xs arbitrary: \<sigma>) (simp_all add: sys_inv_step)

lemma sys_inv_initial: "sys_inv initial"
  by (simp add: sys_inv_def initial_def empty_store_def)

text \<open>
  Claim C6, as amended. Take any run from the empty store made of enqueues, claims,
  finalizations (success or failure) of rows that claims returned, and \<^verbatim>\<open>dlq retry\<close>
  commands, in which every enqueued specification gives no \<^verbatim>\<open>attempts\<close> and gives no
  \<^verbatim>\<open>max_retries\<close> or a non-negative one. Then every job has
  \<open>0 \<le> attempts \<le> max_retries + 1\<close>, and \<open>attempts = max_retries + 1\<close> holds only for a job
  whose state is \<^verbatim>\<open>dead\<close> or \<^verbatim>\<open>completed\<close> and whose \<^verbatim>\<open>last_error\<close> is set (a failed
  attempt wrote it).
\<close>

theorem attempts_bounded_in_runs:
  assumes "\<forall>x\<in>set ops. admissible x"
  shows "\<forall>r\<in>set (jobs (db (run ops))). attempts_bounded r"
  using sys_inv_fold[OF sys_inv_initial assms]
  by (simp add: run_def sys_inv_def)


lemmas run_defs =
  run_def initial_def drop_nth_def claim_defs order_before_def finish_job_failure_def
  finish_job_success_def dlq_retry_def get_config_def py_int_eval compute_backoff_delay_def
  py_timedelta_seconds_def py_datetime_add_def DATETIME_MIN_def DATETIME_MAX_def
  update_where_id_def dead_row_def retry_row_def completed_row_def requeued_row_def

lemma run_ok_ops_eval:
  "map (\<lambda>r. (job_id r, state r, attempts r, max_retries r, last_error r)) (jobs (db (run ok_ops)))
     = [(''job-1'', ''dead'', 1, 0, Some ''boom'')]"
  by (simp add: ok_ops_def run_defs)

theorem attempts_bounded_in_runs_witness:
  "map (\<lambda>r. (job_id r, state r, attempts r, max_retries r, last_error r)) (jobs (db (run ok_ops)))
     = [(''job-1'', ''dead'', 1, 0, Some ''boom'')]
   \<and> attempts_bounded (hd (jobs (db (run ok_ops))))"
proof -
  have h: "\<forall>x\<in>set ok_ops. admissible x"
    by (simp add: ok_ops_def echo_spec_def)
  have "jobs (db (run ok_ops)) \<noteq> []"
    using run_ok_ops_eval by auto
  then have "hd (jobs (db (run ok_ops))) \<in> set (jobs (db (run ok_ops)))"
    by simp
  with attempts_bounded_in_runs[OF h] have "attempts_bounded (hd (jobs (db (run ok_ops))))"
    by blast
  with run_ok_ops_eval show ?thesis by simp
qed

text \<open>
  Claim C6 as stated fails in three ways. \<^verbatim>\<open>enqueue_job\<close> stores the \<^verbatim>\<open>attempts\<close> a
  specification gives: a job enqueued with \<^verbatim>\<open>attempts = 5\<close> and the default
  \<^verbatim>\<open>max_retries = 3\<close> has \<open>attempts > max_retries + 1\<close>. It stores a negative
  \<^verbatim>\<open>max_retries\<close>: a job enqueued with \<^verbatim>\<open>max_retries = -1\<close> is pending with
  \<open>attempts = max_retries + 1\<close>. And no finalization checks the state: a job with
  \<^verbatim>\<open>max_retries = 0\<close> is claimed by \<^verbatim>\<open>worker-1\<close>, requeued by \<^verbatim>\<open>dlq retry\<close> while it is
  processing, claimed by \<^verbatim>\<open>worker-2\<close>, which fails and marks it dead with one attempt, and
  then completed by \<^verbatim>\<open>worker-1\<close>: it is \<^verbatim>\<open>completed\<close> with \<open>attempts = max_retries + 1\<close>.
\<close>

theorem attempts_unbounded_counterexample:
  "map (\<lambda>r. (state r, attempts r, max_retries r)) (jobs (db (run cex_ops_attempts)))
     = [(''pending'', 5, 3)]
   \<and> map (\<lambda>r. (state r, attempts r, max_retries r)) (jobs (db (run cex_ops_negative)))
     = [(''pending'', 0, - 1)]
   \<and> map (\<lambda>r. (state r, attempts r, max_retries r)) (jobs (db (run cex_ops_completed)))
     = [(''completed'', 1, 0)]"
  by (simp add: cex_ops_attempts_def cex_ops_negative_def cex_ops_completed_def run_defs)

end
